theory Spec2Isabelle
  imports Complex_Main
begin

section \<open>Errors\<close>

text \<open>
  Exceptions are values. \<open>UnableToPlaceOrder\<close> (with its message) is the exception that
  \<open>oscar/apps/checkout/mixins.py\<close> raises; \<open>AttributeError\<close>, \<open>ValueError\<close> and
  \<open>KeyError\<close> are the Python exceptions that the modelled code can let escape.
  \<open>MissingShippingAddress\<close>, \<open>AddressNotFound\<close> and \<open>InvalidEventQuantity\<close> are the
  names of the specification's error taxonomy; no code under \<open>src/\<close> raises them.
\<close>

datatype error =
    UnableToPlaceOrder string
  | AttributeError
  | ValueError
  | KeyError
  | MultipleObjectsReturned
  | MissingShippingAddress
  | AddressNotFound
  | InvalidEventQuantity

section \<open>Standard shipping method (\<open>oscar/shipping/abstract_models.py\<close>)\<close>

text \<open>
  A basket line carries a quantity (an integer); the basket is the sequence of its lines
  (\<open>basket.lines.all()\<close>), with the answer of its method \<open>is_shipping_required()\<close>, which
  the checkout reads. The two prices are \<open>DecimalField\<close>s: Python's \<open>Decimal\<close>
  arithmetic on them is exact, so they are rationals here (\<open>5.00\<close> is \<open>5\<close>, \<open>1.50\<close> is
  \<open>3 / 2\<close>).
\<close>

record basket_line =
  bl_quantity :: int

record basket =
  lines :: "basket_line list"
  is_shipping_required :: bool

record abstract_method =
  code :: string
  name :: string
  price_per_order :: rat
  price_per_item :: rat
  m_basket :: "basket option"

text \<open>\<open>set_basket\<close> stores the basket in the attribute \<open>_basket\<close> (here \<open>m_basket\<close>).\<close>

definition set_basket :: "abstract_method \<Rightarrow> basket \<Rightarrow> abstract_method" where
  "set_basket self b = self\<lparr>m_basket := Some b\<rparr>"

text \<open>The \<open>for\<close> loop of \<open>basket_charge_incl_tax\<close>, with \<open>charge\<close> as its accumulator.\<close>

fun charge_loop :: "abstract_method \<Rightarrow> rat \<Rightarrow> basket_line list \<Rightarrow> rat" where
  "charge_loop self charge [] = charge"
| "charge_loop self charge (line # rest) =
     charge_loop self (charge + of_int (bl_quantity line) * price_per_item self) rest"

text \<open>
  Reading \<open>self._basket\<close> before \<open>set_basket\<close> has been called raises \<open>AttributeError\<close>.
\<close>

definition basket_charge_incl_tax :: "abstract_method \<Rightarrow> error + rat" where
  "basket_charge_incl_tax self =
     (case m_basket self of
        None \<Rightarrow> Inl AttributeError
      | Some b \<Rightarrow> Inr (charge_loop self (price_per_order self) (lines b)))"

definition basket_charge_excl_tax :: "abstract_method \<Rightarrow> error + rat" where
  "basket_charge_excl_tax self = basket_charge_incl_tax self"

section \<open>Bulk editing (\<open>oscar/views/generic.py\<close>)\<close>

text \<open>
  \<open>request.POST\<close> is a multi-valued dictionary: a list of key-value pairs. \<open>get\<close> returns
  the last value stored under the key, or the default; \<open>getlist\<close> returns all of them.
  \<open>request.META\<close> is a plain dictionary.
\<close>

type_synonym querydict = "(string \<times> string) list"

definition getlist :: "querydict \<Rightarrow> string \<Rightarrow> string list" where
  "getlist qd key = map snd (filter (\<lambda>kv. fst kv = key) qd)"

definition qd_get :: "querydict \<Rightarrow> string \<Rightarrow> string \<Rightarrow> string" where
  "qd_get qd key dflt = (case getlist qd key of [] \<Rightarrow> dflt | v # vs \<Rightarrow> last (v # vs))"

text \<open>\<open>str.lower()\<close> on the ASCII letters (a \<open>char\<close> is a byte here).\<close>

definition lower_char :: "char \<Rightarrow> char" where
  "lower_char c =
     (let n = (of_char c :: nat) in if 65 \<le> n \<and> n \<le> 90 then char_of (n + 32) else c)"

definition lower :: "string \<Rightarrow> string" where
  "lower s = map lower_char s"

text \<open>
  The view. \<open>actions\<close> is \<open>None\<close> or the whitelist; \<open>queryset_model_name\<close> is
  \<open>get_queryset().model._meta.object_name\<close> when the queryset has a \<open>model\<close> attribute;
  \<open>has_attr\<close> tells which attribute names \<open>getattr(self, _)\<close> finds; \<open>model_objects\<close> is the
  table behind \<open>self.model.objects\<close>, from primary key to object.
\<close>

record 'o bulk_edit_view =
  action_param :: string
  actions :: "string list option"
  checkbox_object_name :: "string option"
  queryset_model_name :: "string option"
  has_attr :: "string \<Rightarrow> bool"
  model_objects :: "int \<rightharpoonup> 'o"

record http_request =
  POST :: querydict
  META :: "(string \<times> string) list"

text \<open>
  What \<open>post\<close> returns: a redirect to a URL after an error message was added with
  \<open>messages.error\<close>, or the return value of the handler \<open>getattr(self, action)\<close> called
  with the request and the selected objects.
\<close>

datatype 'o outcome =
    ErrorRedirect string string
  | HandlerCall string "'o list"

definition get_checkbox_object_name :: "'o bulk_edit_view \<Rightarrow> string option" where
  "get_checkbox_object_name self =
     (case checkbox_object_name self of
        Some n \<Rightarrow> if n \<noteq> [] then Some n else map_option lower (queryset_model_name self)
      | None \<Rightarrow> map_option lower (queryset_model_name self))"

definition get_error_url :: "http_request \<Rightarrow> string" where
  "get_error_url request =
     (case map_of (META request) ''HTTP_REFERER'' of None \<Rightarrow> ''.'' | Some u \<Rightarrow> u)"

text \<open>\<open>'%s' % x\<close> for a string or \<open>None\<close>.\<close>

definition fmt_s :: "string option \<Rightarrow> string" where
  "fmt_s x = (case x of None \<Rightarrow> ''None'' | Some s \<Rightarrow> s)"

text \<open>\<open>map(int, ids)\<close>: the first string that \<open>int\<close> rejects raises \<open>ValueError\<close>.\<close>

fun map_int :: "(string \<Rightarrow> int option) \<Rightarrow> string list \<Rightarrow> error + int list" where
  "map_int py_int [] = Inr []"
| "map_int py_int (s # ss) =
     (case py_int s of
        None \<Rightarrow> Inl ValueError
      | Some i \<Rightarrow> (case map_int py_int ss of Inl e \<Rightarrow> Inl e | Inr is \<Rightarrow> Inr (i # is)))"

text \<open>
  \<open>get_objects\<close>: \<open>in_bulk\<close> gives the dictionary of the objects that exist, and
  \<open>object_dict[id]\<close> raises \<open>KeyError\<close> for an id that is not in it.
\<close>

fun get_objects :: "'o bulk_edit_view \<Rightarrow> int list \<Rightarrow> error + 'o list" where
  "get_objects self [] = Inr []"
| "get_objects self (i # ids) =
     (case model_objects self i of
        None \<Rightarrow> Inl KeyError
      | Some ob \<Rightarrow> (case get_objects self ids of Inl e \<Rightarrow> Inl e | Inr obs \<Rightarrow> Inr (ob # obs)))"

text \<open>
  \<open>BulkEditMixin.post\<close>. Its first argument is Python's built-in \<open>int\<close> on strings
  (\<open>None\<close> where it raises \<open>ValueError\<close>).
\<close>

definition post ::
  "(string \<Rightarrow> int option) \<Rightarrow> 'o bulk_edit_view \<Rightarrow> http_request \<Rightarrow> error + 'o outcome" where
  "post py_int self request =
     (let action = lower (qd_get (POST request) (action_param self) [])
      in
      if (case actions self of None \<Rightarrow> True | Some as \<Rightarrow> as = [] \<or> action \<notin> set as)
      then Inr (ErrorRedirect ''Invalid action'' (get_error_url request))
      else
        (case map_int py_int
                (getlist (POST request) (''selected_'' @ fmt_s (get_checkbox_object_name self))) of
           Inl e \<Rightarrow> Inl e
         | Inr ids \<Rightarrow>
             if ids = []
             then Inr (ErrorRedirect
                        (''You need to select some '' @ fmt_s (get_checkbox_object_name self) @ ''s'')
                        (get_error_url request))
             else
               (case get_objects self ids of
                  Inl e \<Rightarrow> Inl e
                | Inr objects \<Rightarrow>
                    if has_attr self action then Inr (HandlerCall action objects)
                    else Inl AttributeError)))"

text \<open>A reading of decimal digit strings, to run \<open>post\<close> on concrete requests.\<close>

fun digits_value :: "int \<Rightarrow> string \<Rightarrow> int option" where
  "digits_value acc [] = Some acc"
| "digits_value acc (c # cs) =
     (let n = (of_char c :: nat) in
      if 48 \<le> n \<and> n \<le> 57 then digits_value (acc * 10 + int (n - 48)) cs else None)"

definition int_of_digits :: "string \<Rightarrow> int option" where
  "int_of_digits s = (if s = [] then None else digits_value 0 s)"

section \<open>Order placement (\<open>oscar/apps/checkout/mixins.py\<close>)\<close>

text \<open>
  The fields of an address are the dictionary that the session stores and that
  \<open>ShippingAddress(**addr_data)\<close> receives. A user address (an address-book entry) has
  in addition its owner, its stored \<open>hash\<close> and the counter \<open>num_orders\<close>. A row's primary
  key is \<open>None\<close> until the row is saved.
\<close>

type_synonym address_fields = "(string \<times> string) list"

record shipping_address =
  sa_pk :: "nat option"
  sa_fields :: address_fields

record user_address =
  ua_pk :: "nat option"
  ua_user :: nat
  ua_fields :: address_fields
  ua_hash :: int
  num_orders :: nat

record database =
  shipping_addresses :: "shipping_address list"
  user_addresses :: "user_address list"

record user =
  user_pk :: nat
  is_authenticated :: bool

record checkout_session =
  new_shipping_address_fields :: "address_fields option"
  user_address_id :: "nat option"

text \<open>
  What \<open>OrderPlacementMixin\<close> reads of \<open>self\<close>: \<open>self.request.user\<close>,
  \<open>self.request.basket\<close> and \<open>self.checkout_session\<close>.
\<close>

record order_placement =
  request_user :: user
  request_basket :: basket
  checkout_session :: checkout_session

text \<open>
  Modelled from the spec: \<open>populate_alternative_model\<close> of the address models is not under
  \<open>src/\<close>. It converts one kind of address into the other ("convert it into a shipping
  address"): the address fields are copied, the primary key is not.
\<close>

definition populate_shipping_address :: "user_address \<Rightarrow> shipping_address \<Rightarrow> shipping_address" where
  "populate_shipping_address address shipping_addr = shipping_addr\<lparr>sa_fields := ua_fields address\<rparr>"

definition populate_user_address :: "shipping_address \<Rightarrow> user_address \<Rightarrow> user_address" where
  "populate_user_address shipping_addr user_addr = user_addr\<lparr>ua_fields := sa_fields shipping_addr\<rparr>"

text \<open>A primary key that no row of the table has yet.\<close>

definition fresh_pk :: "nat option list \<Rightarrow> nat" where
  "fresh_pk pks = Suc (fold max (map (\<lambda>k. case k of None \<Rightarrow> 0 | Some n \<Rightarrow> n) pks) 0)"

text \<open>
  \<open>Model.save()\<close>: a row whose key is in the table is updated, any other row is inserted (with
  a fresh key when it has none).
\<close>

definition save_shipping_address ::
  "database \<Rightarrow> shipping_address \<Rightarrow> database \<times> shipping_address" where
  "save_shipping_address db a =
     (case sa_pk a of
        None \<Rightarrow>
          (let a' = a\<lparr>sa_pk := Some (fresh_pk (map sa_pk (shipping_addresses db)))\<rparr>
           in (db\<lparr>shipping_addresses := shipping_addresses db @ [a']\<rparr>, a'))
      | Some k \<Rightarrow>
          if Some k \<in> set (map sa_pk (shipping_addresses db))
          then (db\<lparr>shipping_addresses :=
                      map (\<lambda>r. if sa_pk r = Some k then a else r) (shipping_addresses db)\<rparr>, a)
          else (db\<lparr>shipping_addresses := shipping_addresses db @ [a]\<rparr>, a))"

text \<open>
  Modelled from the spec: \<open>UserAddress.save\<close> is not under \<open>src/\<close>. The address-book entry
  is "keyed by a content hash": saving stores the hash of the entry's fields, computed by the
  hash function \<open>generate_hash\<close> of the address models, which is a parameter here; the row
  is then written as \<open>Model.save()\<close> writes it.
\<close>

definition save_user_address ::
  "(address_fields \<Rightarrow> int) \<Rightarrow> database \<Rightarrow> user_address \<Rightarrow> database" where
  "save_user_address generate_hash db a0 =
     (let a = a0\<lparr>ua_hash := generate_hash (ua_fields a0)\<rparr> in
      case ua_pk a of
        None \<Rightarrow>
          db\<lparr>user_addresses := user_addresses db
                @ [a\<lparr>ua_pk := Some (fresh_pk (map ua_pk (user_addresses db)))\<rparr>]\<rparr>
      | Some k \<Rightarrow>
          if Some k \<in> set (map ua_pk (user_addresses db))
          then db\<lparr>user_addresses := map (\<lambda>r. if ua_pk r = Some k then a else r) (user_addresses db)\<rparr>
          else db\<lparr>user_addresses := user_addresses db @ [a]\<rparr>)"

text \<open>
  \<open>get_shipping_address\<close>. The result is \<open>None\<close> when the basket needs no shipping. The
  basket argument defaults to \<open>None\<close>, for which the request's basket is taken. A
  dictionary is true when it is not empty, an id when it is not zero.
\<close>

definition get_shipping_address ::
  "order_placement \<Rightarrow> database \<Rightarrow> basket option \<Rightarrow> error + shipping_address option" where
  "get_shipping_address self db basket =
     (let basket1 = (case basket of None \<Rightarrow> request_basket self | Some b \<Rightarrow> b) in
      if \<not> is_shipping_required basket1 then Inr None
      else
        (let addr_data = new_shipping_address_fields (checkout_session self);
             addr_id = user_address_id (checkout_session self)
         in
         case addr_data of
           Some (kv # kvs) \<Rightarrow> Inr (Some \<lparr>sa_pk = None, sa_fields = kv # kvs\<rparr>)
         | _ \<Rightarrow>
            (case addr_id of
               Some (Suc n) \<Rightarrow>
                 (case find (\<lambda>a. ua_pk a = Some (Suc n)) (user_addresses db) of
                    None \<Rightarrow> Inl (UnableToPlaceOrder
                      (''The selected shipping address no longer exists. ''
                        @ ''Please select or enter another''))
                  | Some address \<Rightarrow>
                      Inr (Some (populate_shipping_address address
                                   \<lparr>sa_pk = None, sa_fields = []\<rparr>)))
             | _ \<Rightarrow> Inl (UnableToPlaceOrder ''No shipping address data found''))))"

text \<open>
  \<open>update_address_book\<close>. \<open>user.addresses.get(hash=...)\<close> raises \<open>ObjectDoesNotExist\<close>
  (caught: a new entry is made, with \<open>num_orders\<close> at its default 0) when the user has no
  entry with the hash, and \<open>MultipleObjectsReturned\<close> (not caught) when there are several.
\<close>

definition update_address_book ::
  "(address_fields \<Rightarrow> int) \<Rightarrow> database \<Rightarrow> user \<Rightarrow> shipping_address \<Rightarrow> error + database" where
  "update_address_book generate_hash db usr shipping_addr =
     (case filter (\<lambda>a. ua_user a = user_pk usr \<and> ua_hash a = generate_hash (sa_fields shipping_addr))
             (user_addresses db) of
        [] \<Rightarrow>
          (let user_addr = populate_user_address shipping_addr
                 \<lparr>ua_pk = None, ua_user = user_pk usr, ua_fields = [], ua_hash = 0, num_orders = 0\<rparr>
           in Inr (save_user_address generate_hash db
                     (user_addr\<lparr>num_orders := num_orders user_addr + 1\<rparr>)))
      | [user_addr] \<Rightarrow>
          Inr (save_user_address generate_hash db
                 (user_addr\<lparr>num_orders := num_orders user_addr + 1\<rparr>))
      | _ \<Rightarrow> Inl MultipleObjectsReturned)"

text \<open>\<open>create_shipping_address\<close>: the address is saved, and the address book is updated for
  an authenticated user.\<close>

definition create_shipping_address ::
  "(address_fields \<Rightarrow> int) \<Rightarrow> order_placement \<Rightarrow> database \<Rightarrow> basket option
     \<Rightarrow> error + (database \<times> shipping_address option)" where
  "create_shipping_address generate_hash self db basket =
     (case get_shipping_address self db basket of
        Inl e \<Rightarrow> Inl e
      | Inr None \<Rightarrow> Inr (db, None)
      | Inr (Some addr) \<Rightarrow>
          (let (db1, addr1) = save_shipping_address db addr in
           if is_authenticated (request_user self)
           then (case update_address_book generate_hash db1 (request_user self) addr1 of
                   Inl e \<Rightarrow> Inl e
                 | Inr db2 \<Rightarrow> Inr (db2, Some addr1))
           else Inr (db1, Some addr1)))"

section \<open>Shipping event ledger (\<open>oscar/apps/order\<close>)\<close>

text \<open>
  Modelled from the spec: of the order models only the tests are under \<open>src/\<close>
  (\<open>oscar/apps/order/tests.py\<close>), so the ledger follows the specification's data model,
  with the names and the shapes that the tests use. An event type has a code and a name
  (\<open>order_placed\<close>, \<open>Order placed\<close>); an order line has a quantity; a shipping event belongs
  to an order and has a type; a shipping event quantity binds an event to a line with a
  quantity. The ledger is the table of these rows, in the order of their recording; rows are
  only ever appended.
\<close>

record event_type =
  et_code :: string
  et_name :: string

record line =
  line_id :: nat
  quantity :: int

record order_model =
  number :: string
  order_lines :: "line list"

record shipping_event =
  ev_order :: string
  event_type :: event_type

record shipping_event_quantity =
  seq_event :: shipping_event
  seq_line :: line
  seq_quantity :: int

type_synonym ledger = "shipping_event_quantity list"

text \<open>
  Modelled from the spec: the aggregate that the order models compute is not under \<open>src/\<close>.
  It is the line's cumulative recorded quantity for a progress stage,
  \<open>sum(event_quantity.quantity for matching stage)\<close>: the stage of a row is the type of its
  event.
\<close>

definition recorded_quantity :: "ledger \<Rightarrow> line \<Rightarrow> event_type \<Rightarrow> int" where
  "recorded_quantity ledger l t =
     sum_list (map seq_quantity
       (filter (\<lambda>r. seq_line r = l \<and> event_type (seq_event r) = t) ledger))"

text \<open>
  Modelled from the spec: the creation of a shipping event quantity
  (\<open>ShippingEventQuantity.objects.create(event=..., line=..., quantity=...)\<close> in the tests)
  is not under \<open>src/\<close>. A quantity that is omitted defaults to the line's full remaining
  quantity; the new quantity must not make the line's cumulative recorded quantity for the
  stage exceed the line's total quantity, or the creation fails with
  \<open>InvalidEventQuantity\<close> and nothing is written. This is the only failure of the contract
  of \<open>record_event\<close>, and the scenario of the specification records 3 and then 1 for one
  line and stage.
\<close>

definition create_event_quantity ::
  "ledger \<Rightarrow> shipping_event \<Rightarrow> line \<Rightarrow> int option \<Rightarrow> error + ledger" where
  "create_event_quantity ledger ev l quantity_opt =
     (let done = recorded_quantity ledger l (event_type ev);
          q = (case quantity_opt of None \<Rightarrow> quantity l - done | Some q \<Rightarrow> q)
      in
      if quantity l < done + q then Inl InvalidEventQuantity
      else Inr (ledger @ [\<lparr>seq_event = ev, seq_line = l, seq_quantity = q\<rparr>]))"

text \<open>
  Modelled from the spec: \<open>record_event(order, event_type, quantities)\<close> is not under
  \<open>src/\<close>. The quantities are a mapping from lines to quantities, here a list of pairs of a
  line and an optional quantity. One event is created and a row for each pair, in turn; the
  first row that is refused fails the operation as a whole.
\<close>

fun create_event_quantities ::
  "ledger \<Rightarrow> shipping_event \<Rightarrow> (line \<times> int option) list \<Rightarrow> error + ledger" where
  "create_event_quantities ledger ev [] = Inr ledger"
| "create_event_quantities ledger ev ((l, quantity_opt) # rest) =
     (case create_event_quantity ledger ev l quantity_opt of
        Inl e \<Rightarrow> Inl e
      | Inr ledger' \<Rightarrow> create_event_quantities ledger' ev rest)"

definition record_event ::
  "ledger \<Rightarrow> order_model \<Rightarrow> event_type \<Rightarrow> (line \<times> int option) list \<Rightarrow> error + ledger" where
  "record_event ledger ord t quantities =
     create_event_quantities ledger \<lparr>ev_order = number ord, event_type = t\<rparr> quantities"

text \<open>A sequence of recordings, each on the ledger that the one before it left.\<close>

fun record_events ::
  "ledger \<Rightarrow> (order_model \<times> event_type \<times> (line \<times> int option) list) list \<Rightarrow> error + ledger" where
  "record_events ledger [] = Inr ledger"
| "record_events ledger ((ord, t, quantities) # rest) =
     (case record_event ledger ord t quantities of
        Inl e \<Rightarrow> Inl e
      | Inr ledger' \<Rightarrow> record_events ledger' rest)"

text \<open>\<open>'%d' % n\<close>: the decimal digits of an integer, with a minus sign when it is negative.\<close>

fun str_nat :: "nat \<Rightarrow> string" where
  "str_nat n =
     (if n < 10 then [char_of (48 + n)] else str_nat (n div 10) @ [char_of (48 + n mod 10)])"

declare str_nat.simps [simp del]

definition str_int :: "int \<Rightarrow> string" where
  "str_int i = (if i < 0 then CHR ''-'' # str_nat (nat (- i)) else str_nat (nat i))"

text \<open>
  Modelled from the spec: the property \<open>shipping_status\<close> of a line is not under \<open>src/\<close>.
  The line derives its status from its event quantities: the empty string when it has none;
  else, for the stage of its latest event (the tests expect the later of two full events),
  the name of the event type when the line is fully covered, and
  \<open><type> (<done>/<total> items)\<close> when it is partially covered.
\<close>

definition shipping_status :: "ledger \<Rightarrow> line \<Rightarrow> string" where
  "shipping_status ledger l =
     (case rev (filter (\<lambda>r. seq_line r = l) ledger) of
        [] \<Rightarrow> []
      | r # _ \<Rightarrow>
          (let t = event_type (seq_event r); done = recorded_quantity ledger l t in
           if done = quantity l then et_name t
           else et_name t @ '' ('' @ str_int done @ ''/'' @ str_int (quantity l) @ '' items)''))"

text \<open>
  Modelled from the spec: \<open>has_shipping_event_occurred\<close> is not under \<open>src/\<close>. For a line
  (as the tests call it) it tells whether the line's cumulative quantity for the type equals
  the line's full quantity; for an order, whether this is so for every line, checked line
  by line.
\<close>

definition line_has_shipping_event_occurred :: "ledger \<Rightarrow> line \<Rightarrow> event_type \<Rightarrow> bool" where
  "line_has_shipping_event_occurred ledger l t = (recorded_quantity ledger l t = quantity l)"

fun lines_have_shipping_event_occurred :: "ledger \<Rightarrow> line list \<Rightarrow> event_type \<Rightarrow> bool" where
  "lines_have_shipping_event_occurred ledger [] t = True"
| "lines_have_shipping_event_occurred ledger (l # ls) t =
     (if line_has_shipping_event_occurred ledger l t
      then lines_have_shipping_event_occurred ledger ls t else False)"

definition has_shipping_event_occurred :: "ledger \<Rightarrow> order_model \<Rightarrow> event_type \<Rightarrow> bool" where
  "has_shipping_event_occurred ledger ord t =
     lines_have_shipping_event_occurred ledger (order_lines ord) t"

section \<open>Concrete inputs\<close>

text \<open>A view with the whitelist \<open>['delete']\<close> over a table that holds one object.\<close>

definition product_view :: "string bulk_edit_view" where
  "product_view =
     \<lparr>action_param = ''action'', actions = Some [''delete''],
      checkbox_object_name = Some ''product'', queryset_model_name = None,
      has_attr = (\<lambda>a. a = ''delete'' \<or> a = ''post''), model_objects = [7 \<mapsto> ''p7'']\<rparr>"

text \<open>
  Two requests with one selected row: for the action \<open>Delete\<close>, and for \<open>post\<close>, which is
  an attribute of the view but not in its whitelist.
\<close>

definition delete_request :: http_request where
  "delete_request =
     \<lparr>POST = [(''action'', ''Delete''), (''selected_product'', ''7'')], META = []\<rparr>"

definition post_request :: http_request where
  "post_request =
     \<lparr>POST = [(''action'', ''post''), (''selected_product'', ''7'')],
      META = [(''HTTP_REFERER'', ''/dashboard/'')]\<rparr>"

text \<open>A stand-in for the hash of an address, to run the address book on concrete input.\<close>

definition fields_hash :: "address_fields \<Rightarrow> int" where
  "fields_hash d = int (length (concat (map snd d)))"

definition smith_road :: address_fields where
  "smith_road = [(''last_name'', ''Barrington''), (''line1'', ''75 Smith Road'')]"

definition empty_db :: database where
  "empty_db = \<lparr>shipping_addresses = [], user_addresses = []\<rparr>"

text \<open>A database whose address book holds one entry, of user 1, used for 3 orders.\<close>

definition book_db :: database where
  "book_db = \<lparr>shipping_addresses = [],
     user_addresses = [\<lparr>ua_pk = Some 5, ua_user = 1, ua_fields = smith_road,
                        ua_hash = fields_hash smith_road, num_orders = 3\<rparr>]\<rparr>"

text \<open>
  Checkouts of a basket that requires shipping: with a typed-in address, with nothing in
  the session, with the id of an address-book entry, and the latter for an anonymous user.
\<close>

definition checkout_typed :: order_placement where
  "checkout_typed =
     \<lparr>request_user = \<lparr>user_pk = 1, is_authenticated = True\<rparr>,
      request_basket = \<lparr>lines = [\<lparr>bl_quantity = 4\<rparr>], is_shipping_required = True\<rparr>,
      checkout_session = \<lparr>new_shipping_address_fields = Some smith_road, user_address_id = None\<rparr>\<rparr>"

definition checkout_blank :: order_placement where
  "checkout_blank =
     \<lparr>request_user = \<lparr>user_pk = 1, is_authenticated = True\<rparr>,
      request_basket = \<lparr>lines = [\<lparr>bl_quantity = 4\<rparr>], is_shipping_required = True\<rparr>,
      checkout_session = \<lparr>new_shipping_address_fields = None, user_address_id = None\<rparr>\<rparr>"

definition checkout_book :: order_placement where
  "checkout_book =
     \<lparr>request_user = \<lparr>user_pk = 1, is_authenticated = True\<rparr>,
      request_basket = \<lparr>lines = [\<lparr>bl_quantity = 4\<rparr>], is_shipping_required = True\<rparr>,
      checkout_session = \<lparr>new_shipping_address_fields = None, user_address_id = Some 5\<rparr>\<rparr>"

definition checkout_anonymous :: order_placement where
  "checkout_anonymous =
     \<lparr>request_user = \<lparr>user_pk = 0, is_authenticated = False\<rparr>,
      request_basket = \<lparr>lines = [\<lparr>bl_quantity = 4\<rparr>], is_shipping_required = True\<rparr>,
      checkout_session = \<lparr>new_shipping_address_fields = None, user_address_id = Some 5\<rparr>\<rparr>"

text \<open>
  The order of the tests: number 100002, one line of 4 items, and the event types
  \<open>order_placed\<close> and \<open>dispatched\<close>.
\<close>

definition order_placed :: event_type where
  "order_placed = \<lparr>et_code = ''order_placed'', et_name = ''Order placed''\<rparr>"

definition dispatched :: event_type where
  "dispatched = \<lparr>et_code = ''dispatched'', et_name = ''Dispatched''\<rparr>"

definition test_line :: line where
  "test_line = \<lparr>line_id = 1, quantity = 4\<rparr>"

definition test_order :: order_model where
  "test_order = \<lparr>number = ''100002'', order_lines = [test_line]\<rparr>"

text \<open>The row that an event of type \<open>order_placed\<close> on the order writes for the line.\<close>

definition placed_row :: "int \<Rightarrow> shipping_event_quantity" where
  "placed_row q =
     \<lparr>seq_event = \<lparr>ev_order = ''100002'', event_type = order_placed\<rparr>,
      seq_line = test_line, seq_quantity = q\<rparr>"

section \<open>Properties of the shipping charge\<close>

lemma charge_loop_sum:
  "charge_loop self acc ls =
     acc + (\<Sum>l\<leftarrow>ls. of_int (bl_quantity l) * price_per_item self)"
  by (induction ls arbitrary: acc) (simp_all add: add.assoc)

lemma sum_list_scaled:
  "(\<Sum>l\<leftarrow>ls. (of_int (bl_quantity l) :: rat) * p) = of_int (\<Sum>l\<leftarrow>ls. bl_quantity l) * p"
  by (induction ls) (simp_all add: algebra_simps)

text \<open>
  Claim C1. For a standard shipping method bound to a basket by \<open>set_basket\<close>, the charge
  including tax and the charge excluding tax are both \<open>price_per_order\<close> plus the sum over
  the basket's lines of the line's quantity times \<open>price_per_item\<close>. With a price per order
  of 5.00, a price per item of 1.50 and lines that total 4 items, both are 11.00.
\<close>

theorem basket_charge_linear:
  "basket_charge_incl_tax (set_basket m b) =
     Inr (price_per_order m + (\<Sum>l\<leftarrow>lines b. of_int (bl_quantity l) * price_per_item m))
   \<and> basket_charge_excl_tax (set_basket m b) =
     Inr (price_per_order m + (\<Sum>l\<leftarrow>lines b. of_int (bl_quantity l) * price_per_item m))
   \<and> (price_per_order m = 5 \<and> price_per_item m = 3 / 2 \<and> (\<Sum>l\<leftarrow>lines b. bl_quantity l) = 4
        \<longrightarrow> basket_charge_incl_tax (set_basket m b) = Inr 11
          \<and> basket_charge_excl_tax (set_basket m b) = Inr 11)"
proof -
  have incl: "basket_charge_incl_tax (set_basket m b) =
      Inr (price_per_order m + (\<Sum>l\<leftarrow>lines b. of_int (bl_quantity l) * price_per_item m))"
    by (simp add: basket_charge_incl_tax_def set_basket_def charge_loop_sum)
  have excl: "basket_charge_excl_tax (set_basket m b) = basket_charge_incl_tax (set_basket m b)"
    by (simp add: basket_charge_excl_tax_def)
  have scen: "basket_charge_incl_tax (set_basket m b) = Inr 11"
    if "price_per_order m = 5" "price_per_item m = 3 / 2" "(\<Sum>l\<leftarrow>lines b. bl_quantity l) = 4"
    using that by (simp add: incl sum_list_scaled)
  show ?thesis
    using incl excl scen by simp
qed

text \<open>
  The scenario of the specification: one line of 3 items and one of 1 item, 5.00 per order
  and 1.50 per item.
\<close>

theorem basket_charge_linear_witness:
  "price_per_order \<lparr>code = ''std'', name = ''Standard'', price_per_order = 5,
       price_per_item = 3 / 2, m_basket = None\<rparr> = 5
   \<and> price_per_item \<lparr>code = ''std'', name = ''Standard'', price_per_order = 5,
       price_per_item = 3 / 2, m_basket = None\<rparr> = 3 / 2
   \<and> (\<Sum>l\<leftarrow>lines \<lparr>lines = [\<lparr>bl_quantity = 3\<rparr>, \<lparr>bl_quantity = 1\<rparr>],
           is_shipping_required = True\<rparr>. bl_quantity l) = 4
   \<and> basket_charge_incl_tax (set_basket
         \<lparr>code = ''std'', name = ''Standard'', price_per_order = 5,
          price_per_item = 3 / 2, m_basket = None\<rparr>
         \<lparr>lines = [\<lparr>bl_quantity = 3\<rparr>, \<lparr>bl_quantity = 1\<rparr>],
           is_shipping_required = True\<rparr>) = Inr 11
   \<and> basket_charge_excl_tax (set_basket
         \<lparr>code = ''std'', name = ''Standard'', price_per_order = 5,
          price_per_item = 3 / 2, m_basket = None\<rparr>
         \<lparr>lines = [\<lparr>bl_quantity = 3\<rparr>, \<lparr>bl_quantity = 1\<rparr>],
           is_shipping_required = True\<rparr>) = Inr 11"
  using basket_charge_linear
    [of "\<lparr>code = ''std'', name = ''Standard'', price_per_order = 5,
          price_per_item = 3 / 2, m_basket = None\<rparr>"
        "\<lparr>lines = [\<lparr>bl_quantity = 3\<rparr>, \<lparr>bl_quantity = 1\<rparr>],
           is_shipping_required = True\<rparr>"]
  by simp

section \<open>Properties of bulk editing\<close>

text \<open>
  Claim C10. \<open>BulkEditMixin.post\<close> hands the request to a handler only when the
  lower-cased value of the request's action parameter is in the view's whitelist
  \<open>actions\<close> and at least one object id was selected; when the action is not in the
  whitelist, or the view declares no whitelist, no handler runs and the response is the
  redirect to the error URL, after the message "Invalid action".
\<close>

theorem bulk_post_whitelist:
  "(post py_int self request = Inr (HandlerCall a objects) \<longrightarrow>
      a = lower (qd_get (POST request) (action_param self) [])
      \<and> (\<exists>as. actions self = Some as \<and> a \<in> set as)
      \<and> getlist (POST request) (''selected_'' @ fmt_s (get_checkbox_object_name self)) \<noteq> []
      \<and> objects \<noteq> [])
   \<and> ((\<forall>as. actions self = Some as \<longrightarrow>
          lower (qd_get (POST request) (action_param self) []) \<notin> set as)
       \<longrightarrow> post py_int self request = Inr (ErrorRedirect ''Invalid action'' (get_error_url request)))"
proof (intro conjI impI)
  assume "\<forall>as. actions self = Some as \<longrightarrow>
          lower (qd_get (POST request) (action_param self) []) \<notin> set as"
  then show "post py_int self request = Inr (ErrorRedirect ''Invalid action'' (get_error_url request))"
    by (auto simp: post_def Let_def split: option.splits)
next
  assume h: "post py_int self request = Inr (HandlerCall a objects)"
  show "a = lower (qd_get (POST request) (action_param self) [])"
    using h by (auto simp: post_def Let_def split: option.splits if_splits sum.splits)
  show "\<exists>as. actions self = Some as \<and> a \<in> set as"
    using h by (auto simp: post_def Let_def split: option.splits if_splits sum.splits)
  show "getlist (POST request) (''selected_'' @ fmt_s (get_checkbox_object_name self)) \<noteq> []"
    using h by (auto simp: post_def Let_def split: option.splits if_splits sum.splits)
  show "objects \<noteq> []"
    using h
    by (auto simp: post_def Let_def split: option.splits if_splits sum.splits list.splits
          elim: get_objects.elims)
qed

text \<open>
  The view \<open>product_view\<close> on a request for \<open>Delete\<close> with one selected id, and on a
  request for \<open>post\<close>, an attribute of the view that is not in the whitelist.
\<close>

theorem bulk_post_whitelist_witness:
  "post int_of_digits product_view delete_request = Inr (HandlerCall ''delete'' [''p7''])
   \<and> ''delete'' = lower (qd_get (POST delete_request) (action_param product_view) [])
   \<and> actions product_view = Some [''delete'']
   \<and> lower (qd_get (POST post_request) (action_param product_view) []) = ''post''
   \<and> post int_of_digits product_view post_request
        = Inr (ErrorRedirect ''Invalid action'' ''/dashboard/'')"
proof -
  have run: "post int_of_digits product_view delete_request = Inr (HandlerCall ''delete'' [''p7''])"
    by code_simp
  have acts: "actions product_view = Some [''delete'']"
    by (simp add: product_view_def)
  have low: "lower (qd_get (POST post_request) (action_param product_view) []) = ''post''"
    by (simp add: product_view_def post_request_def qd_get_def getlist_def lower_def
          lower_char_def)
  have out: "\<forall>as. actions product_view = Some as \<longrightarrow>
      lower (qd_get (POST post_request) (action_param product_view) []) \<notin> set as"
    unfolding low acts by simp
  have url: "get_error_url post_request = ''/dashboard/''"
    by (simp add: get_error_url_def post_request_def)
  have t1: "''delete'' = lower (qd_get (POST delete_request) (action_param product_view) [])"
    using bulk_post_whitelist
      [of int_of_digits product_view delete_request "''delete''" "[''p7'']"] run
    by blast
  have t2: "post int_of_digits product_view post_request
      = Inr (ErrorRedirect ''Invalid action'' (get_error_url post_request))"
    using bulk_post_whitelist
      [of int_of_digits product_view post_request "''delete''" "[''p7'']"] out
    by blast
  from run t1 acts low t2 show ?thesis
    unfolding url by (intro conjI)
qed

section \<open>Properties of the shipping address of an order\<close>

lemma fold_max_ge: "a \<le> fold max xs (a::nat)"
  by (induction xs arbitrary: a) (auto intro: order_trans[OF max.cobounded2])

lemma fold_max_mem: "x \<in> set xs \<Longrightarrow> x \<le> fold max xs (a::nat)"
proof (induction xs arbitrary: a)
  case Nil then show ?case by simp
next
  case (Cons y ys)
  show ?case
  proof (cases "x = y")
    case True
    have "y \<le> max y a" by simp
    also have "\<dots> \<le> fold max ys (max y a)" by (rule fold_max_ge)
    finally show ?thesis using True by simp
  next
    case False
    with Cons show ?thesis by simp
  qed
qed

lemma fresh_pk_new: "Some (fresh_pk pks) \<notin> set pks"
proof
  assume "Some (fresh_pk pks) \<in> set pks"
  then have "fresh_pk pks \<in> set (map (\<lambda>k. case k of None \<Rightarrow> 0 | Some n \<Rightarrow> n) pks)"
    by force
  then have "fresh_pk pks \<le> fold max (map (\<lambda>k. case k of None \<Rightarrow> 0 | Some n \<Rightarrow> n) pks) 0"
    by (rule fold_max_mem)
  then show False by (simp add: fresh_pk_def)
qed

lemma map_replace_fresh:
  "Some k \<notin> set (map ua_pk rows) \<Longrightarrow> map (\<lambda>r. if ua_pk r = Some k then a else r) rows = rows"
  by (induction rows) auto

lemma get_shipping_address_fields:
  "is_shipping_required (case basket of None \<Rightarrow> request_basket self | Some b \<Rightarrow> b) \<Longrightarrow>
   new_shipping_address_fields (checkout_session self) = Some d \<Longrightarrow> d \<noteq> [] \<Longrightarrow>
   get_shipping_address self db basket = Inr (Some \<lparr>sa_pk = None, sa_fields = d\<rparr>)"
  by (cases d) (simp_all add: get_shipping_address_def)

lemma save_shipping_address_new:
  "save_shipping_address db \<lparr>sa_pk = None, sa_fields = d\<rparr> = (db1, a1) \<Longrightarrow>
   user_addresses db1 = user_addresses db \<and> sa_fields a1 = d"
  by (auto simp: save_shipping_address_def Let_def)

lemma update_address_book_new:
  assumes "filter (\<lambda>a. ua_user a = user_pk u \<and> ua_hash a = g (sa_fields sa)) (user_addresses db) = []"
  shows "update_address_book g db u sa =
     Inr (db\<lparr>user_addresses := user_addresses db @
        [\<lparr>ua_pk = Some (fresh_pk (map ua_pk (user_addresses db))), ua_user = user_pk u,
          ua_fields = sa_fields sa, ua_hash = g (sa_fields sa), num_orders = 1\<rparr>]\<rparr>)"
  using assms
  by (simp add: update_address_book_def populate_user_address_def save_user_address_def Let_def)

lemma update_address_book_found:
  assumes "filter (\<lambda>a. ua_user a = user_pk u \<and> ua_hash a = g (sa_fields sa)) (user_addresses db) = [e]"
    and "ua_pk e = Some k"
  shows "update_address_book g db u sa =
     Inr (db\<lparr>user_addresses :=
        map (\<lambda>r. if ua_pk r = Some k
                  then e\<lparr>num_orders := num_orders e + 1, ua_hash := g (ua_fields e)\<rparr> else r)
          (user_addresses db)\<rparr>)"
proof -
  have "e \<in> set (user_addresses db)"
    using assms(1) by (metis filter_is_subset list.set_intros(1) subsetD)
  then have "Some k \<in> set (map ua_pk (user_addresses db))"
    using assms(2) by force
  then show ?thesis
    using assms by (simp add: update_address_book_def save_user_address_def Let_def)
qed

lemma find_map_replace:
  "P x \<Longrightarrow> find P (map (\<lambda>r. if P r then x else r) xs) = (if \<exists>r\<in>set xs. P r then Some x else None)"
  by (induction xs) auto

lemma find_Some_mem: "find P xs = Some e \<Longrightarrow> e \<in> set xs \<and> P e"
  by (induction xs) (auto split: if_splits)

lemma get_shipping_address_by_id:
  assumes "is_shipping_required (case basket of None \<Rightarrow> request_basket self | Some b \<Rightarrow> b)"
    and "new_shipping_address_fields (checkout_session self) = None
         \<or> new_shipping_address_fields (checkout_session self) = Some []"
    and "user_address_id (checkout_session self) = Some i" and "i \<noteq> 0"
  shows "get_shipping_address self db basket =
     (case find (\<lambda>a. ua_pk a = Some i) (user_addresses db) of
        None \<Rightarrow> Inl (UnableToPlaceOrder
           ''The selected shipping address no longer exists. Please select or enter another'')
      | Some e \<Rightarrow> Inr (Some \<lparr>sa_pk = None, sa_fields = ua_fields e\<rparr>))"
proof -
  obtain n where "i = Suc n" using assms(4) by (cases i) auto
  then show ?thesis
    using assms(1-3)
    by (auto simp: get_shipping_address_def populate_shipping_address_def split: option.splits)
qed

text \<open>
  Claim C6, as amended. When the basket requires shipping and the checkout session holds
  neither address fields (none, or an empty dictionary) nor the id of an address-book entry
  (none, or zero), \<open>get_shipping_address\<close> fails with \<open>UnableToPlaceOrder\<close>, with the
  message "No shipping address data found".
\<close>

theorem get_shipping_address_no_data:
  assumes "is_shipping_required (case basket of None \<Rightarrow> request_basket self | Some b \<Rightarrow> b)"
    and "new_shipping_address_fields (checkout_session self) = None
         \<or> new_shipping_address_fields (checkout_session self) = Some []"
    and "user_address_id (checkout_session self) = None
         \<or> user_address_id (checkout_session self) = Some 0"
  shows "get_shipping_address self db basket =
           Inl (UnableToPlaceOrder ''No shipping address data found'')"
  using assms by (auto simp: get_shipping_address_def)

theorem get_shipping_address_no_data_witness:
  "is_shipping_required (case None of None \<Rightarrow> request_basket checkout_blank | Some b \<Rightarrow> b)
   \<and> new_shipping_address_fields (checkout_session checkout_blank) = None
   \<and> user_address_id (checkout_session checkout_blank) = None
   \<and> get_shipping_address checkout_blank empty_db None =
           Inl (UnableToPlaceOrder ''No shipping address data found'')"
  using get_shipping_address_no_data
    [where basket = None and self = checkout_blank and db = empty_db]
  by (simp add: checkout_blank_def)

text \<open>
  The claim as stated names the error \<open>MissingShippingAddress\<close>: on the blank checkout
  the error is another one.
\<close>

theorem missing_shipping_address_counterexample:
  "get_shipping_address checkout_blank empty_db None \<noteq> Inl MissingShippingAddress"
  by (simp add: get_shipping_address_def checkout_blank_def)

text \<open>
  Claim C7, as amended. When the basket requires shipping and the session holds no address
  fields but the (non-zero) id of an address-book entry: if no entry has this id,
  \<open>get_shipping_address\<close> fails with \<open>UnableToPlaceOrder\<close>, with the message "The selected
  shipping address no longer exists. Please select or enter another"; if an entry has it,
  the result is an unsaved shipping address with the entry's fields, and, for an
  authenticated user whose only address-book entry with the hash of these fields is this
  entry, \<open>create_shipping_address\<close> saves the shipping address and increments the entry's
  \<open>num_orders\<close> by one.
\<close>

theorem shipping_address_from_address_book:
  assumes ship: "is_shipping_required (case basket of None \<Rightarrow> request_basket self | Some b \<Rightarrow> b)"
    and nodata: "new_shipping_address_fields (checkout_session self) = None
         \<or> new_shipping_address_fields (checkout_session self) = Some []"
    and id: "user_address_id (checkout_session self) = Some i" "i \<noteq> 0"
  shows "(find (\<lambda>a. ua_pk a = Some i) (user_addresses db) = None \<longrightarrow>
            get_shipping_address self db basket = Inl (UnableToPlaceOrder
              ''The selected shipping address no longer exists. Please select or enter another''))
    \<and> (\<forall>e. find (\<lambda>a. ua_pk a = Some i) (user_addresses db) = Some e \<longrightarrow>
          get_shipping_address self db basket = Inr (Some \<lparr>sa_pk = None, sa_fields = ua_fields e\<rparr>)
        \<and> (is_authenticated (request_user self)
            \<and> filter (\<lambda>a. ua_user a = user_pk (request_user self)
                          \<and> ua_hash a = generate_hash (ua_fields e)) (user_addresses db) = [e]
           \<longrightarrow> (\<exists>db' a. create_shipping_address generate_hash self db basket = Inr (db', Some a)
                  \<and> sa_fields a = ua_fields e
                  \<and> find (\<lambda>a. ua_pk a = Some i) (user_addresses db')
                      = Some (e\<lparr>num_orders := num_orders e + 1\<rparr>))))"
proof (intro conjI allI impI)
  assume "find (\<lambda>a. ua_pk a = Some i) (user_addresses db) = None"
  then show "get_shipping_address self db basket = Inl (UnableToPlaceOrder
              ''The selected shipping address no longer exists. Please select or enter another'')"
    using get_shipping_address_by_id[OF ship nodata id, of db] by simp
next
  fix e assume f: "find (\<lambda>a. ua_pk a = Some i) (user_addresses db) = Some e"
  then show g: "get_shipping_address self db basket = Inr (Some \<lparr>sa_pk = None, sa_fields = ua_fields e\<rparr>)"
    using get_shipping_address_by_id[OF ship nodata id, of db] by simp
  assume h: "is_authenticated (request_user self)
            \<and> filter (\<lambda>a. ua_user a = user_pk (request_user self)
                          \<and> ua_hash a = generate_hash (ua_fields e)) (user_addresses db) = [e]"
  from find_Some_mem[OF f] have mem: "e \<in> set (user_addresses db)" and pk: "ua_pk e = Some i"
    by simp_all
  have "e \<in> set (filter (\<lambda>a. ua_user a = user_pk (request_user self)
                          \<and> ua_hash a = generate_hash (ua_fields e)) (user_addresses db))"
    using h by simp
  then have hash: "ua_hash e = generate_hash (ua_fields e)" by simp
  obtain dbs a where s: "save_shipping_address db \<lparr>sa_pk = None, sa_fields = ua_fields e\<rparr> = (dbs, a)"
    by (cases "save_shipping_address db \<lparr>sa_pk = None, sa_fields = ua_fields e\<rparr>")
  from save_shipping_address_new[OF s]
  have dbs: "user_addresses dbs = user_addresses db" and a: "sa_fields a = ua_fields e" by simp_all
  define x where "x = e\<lparr>num_orders := num_orders e + 1, ua_hash := generate_hash (ua_fields e)\<rparr>"
  have x: "x = e\<lparr>num_orders := num_orders e + 1\<rparr>"
    using hash by (simp add: x_def)
  define db' where "db' = dbs\<lparr>user_addresses :=
      map (\<lambda>r. if ua_pk r = Some i then x else r) (user_addresses db)\<rparr>"
  have u: "update_address_book generate_hash dbs (request_user self) a = Inr db'"
    using update_address_book_found[of "request_user self" generate_hash a dbs e i] h pk
    unfolding db'_def x_def by (simp add: a dbs)
  have c: "create_shipping_address generate_hash self db basket = Inr (db', Some a)"
    using h by (simp add: create_shipping_address_def g s u)
  have "ua_pk x = Some i" by (simp add: x pk)
  then have "find (\<lambda>a. ua_pk a = Some i) (user_addresses db') = Some x"
    using mem pk by (simp add: db'_def find_map_replace[where P="\<lambda>a. ua_pk a = Some i"]) blast
  with c a show "\<exists>db' a. create_shipping_address generate_hash self db basket = Inr (db', Some a)
                  \<and> sa_fields a = ua_fields e
                  \<and> find (\<lambda>a. ua_pk a = Some i) (user_addresses db')
                      = Some (e\<lparr>num_orders := num_orders e + 1\<rparr>)"
    unfolding x by blast
qed


theorem shipping_address_from_address_book_witness:
  "get_shipping_address checkout_book empty_db None = Inl (UnableToPlaceOrder
      ''The selected shipping address no longer exists. Please select or enter another'')
   \<and> get_shipping_address checkout_book book_db None
        = Inr (Some \<lparr>sa_pk = None, sa_fields = smith_road\<rparr>)
   \<and> (\<exists>db' a. create_shipping_address fields_hash checkout_book book_db None = Inr (db', Some a)
         \<and> sa_fields a = smith_road
         \<and> find (\<lambda>a. ua_pk a = Some 5) (user_addresses db')
             = Some \<lparr>ua_pk = Some 5, ua_user = 1, ua_fields = smith_road,
                     ua_hash = fields_hash smith_road, num_orders = 4\<rparr>)"
  using shipping_address_from_address_book
      [where basket = None and self = checkout_book and db = empty_db and i = 5]
    shipping_address_from_address_book
      [where basket = None and self = checkout_book and db = book_db and i = 5
         and generate_hash = fields_hash]
  by (simp add: checkout_book_def empty_db_def book_db_def)

text \<open>
  The claim as stated names the error \<open>AddressNotFound\<close> and increments the counter of
  every entry that exists: the error is another one, and the checkout of an anonymous user
  leaves the counter of the entry (3) as it is.
\<close>

theorem address_not_found_counterexample:
  "get_shipping_address checkout_book empty_db None \<noteq> Inl AddressNotFound
   \<and> create_shipping_address fields_hash checkout_anonymous book_db None =
       Inr (\<lparr>shipping_addresses = [\<lparr>sa_pk = Some 1, sa_fields = smith_road\<rparr>],
             user_addresses = [\<lparr>ua_pk = Some 5, ua_user = 1, ua_fields = smith_road,
                                 ua_hash = fields_hash smith_road, num_orders = 3\<rparr>]\<rparr>,
            Some \<lparr>sa_pk = Some 1, sa_fields = smith_road\<rparr>)"
  by (simp add: get_shipping_address_def create_shipping_address_def checkout_book_def
        checkout_anonymous_def empty_db_def book_db_def populate_shipping_address_def
        save_shipping_address_def fresh_pk_def Let_def)

text \<open>
  Claim C8. For an authenticated user whose address book has no entry with the hash of the
  address, creating the shipping address twice from the same submitted fields leaves
  exactly one address-book entry of this user with this hash: the user's address book has
  grown by this one entry, which holds the fields and whose \<open>num_orders\<close> is 2.
\<close>

theorem address_book_dedup:
  assumes auth: "is_authenticated (request_user self)"
    and ship: "is_shipping_required (case basket of None \<Rightarrow> request_basket self | Some b \<Rightarrow> b)"
    and data: "new_shipping_address_fields (checkout_session self) = Some d" "d \<noteq> []"
    and new: "filter (\<lambda>a. ua_user a = user_pk (request_user self) \<and> ua_hash a = generate_hash d)
                (user_addresses db) = []"
  shows "\<exists>db1 a1 db2 a2 e.
      create_shipping_address generate_hash self db basket = Inr (db1, Some a1)
    \<and> create_shipping_address generate_hash self db1 basket = Inr (db2, Some a2)
    \<and> filter (\<lambda>a. ua_user a = user_pk (request_user self) \<and> ua_hash a = generate_hash d)
        (user_addresses db2) = [e]
    \<and> ua_fields e = d \<and> num_orders e = 2
    \<and> filter (\<lambda>a. ua_user a = user_pk (request_user self)) (user_addresses db2) =
        filter (\<lambda>a. ua_user a = user_pk (request_user self)) (user_addresses db) @ [e]"
proof -
  let ?u = "request_user self"
  let ?P = "\<lambda>a. ua_user a = user_pk ?u \<and> ua_hash a = generate_hash d"
  let ?k = "fresh_pk (map ua_pk (user_addresses db))"
  have g: "\<And>db'. get_shipping_address self db' basket = Inr (Some \<lparr>sa_pk = None, sa_fields = d\<rparr>)"
    using ship data by (rule get_shipping_address_fields)
  obtain dbs a1 where s1: "save_shipping_address db \<lparr>sa_pk = None, sa_fields = d\<rparr> = (dbs, a1)"
    by (cases "save_shipping_address db \<lparr>sa_pk = None, sa_fields = d\<rparr>")
  from save_shipping_address_new[OF s1]
  have dbs: "user_addresses dbs = user_addresses db" and a1: "sa_fields a1 = d" by simp_all
  define n where "n = \<lparr>ua_pk = Some ?k, ua_user = user_pk ?u, ua_fields = d,
      ua_hash = generate_hash d, num_orders = 1\<rparr>"
  define db1 where "db1 = dbs\<lparr>user_addresses := user_addresses db @ [n]\<rparr>"
  have u1: "update_address_book generate_hash dbs ?u a1 = Inr db1"
    using update_address_book_new[of ?u generate_hash a1 dbs] new
    by (simp add: dbs a1 db1_def n_def)
  have c1: "create_shipping_address generate_hash self db basket = Inr (db1, Some a1)"
    by (simp add: create_shipping_address_def g s1 auth u1)
  obtain dbt a2 where s2: "save_shipping_address db1 \<lparr>sa_pk = None, sa_fields = d\<rparr> = (dbt, a2)"
    by (cases "save_shipping_address db1 \<lparr>sa_pk = None, sa_fields = d\<rparr>")
  from save_shipping_address_new[OF s2]
  have dbt: "user_addresses dbt = user_addresses db @ [n]" and a2: "sa_fields a2 = d"
    by (simp_all add: db1_def)
  have f2: "filter ?P (user_addresses dbt) = [n]"
    using new by (simp add: dbt n_def)
  define n2 where "n2 = n\<lparr>num_orders := 2\<rparr>"
  have fresh: "Some ?k \<notin> set (map ua_pk (user_addresses db))"
    by (rule fresh_pk_new)
  define db2 where "db2 = dbt\<lparr>user_addresses := user_addresses db @ [n2]\<rparr>"
  have u2: "update_address_book generate_hash dbt ?u a2 = Inr db2"
    using update_address_book_found[of ?u generate_hash a2 dbt n ?k] f2
    by (simp add: a2 dbt map_replace_fresh[OF fresh] db2_def n2_def n_def)
  have c2: "create_shipping_address generate_hash self db1 basket = Inr (db2, Some a2)"
    by (simp add: create_shipping_address_def g s2 auth u2)
  have f3: "filter ?P (user_addresses db2) = [n2]"
    using new by (simp add: db2_def n2_def n_def)
  have f4: "filter (\<lambda>a. ua_user a = user_pk ?u) (user_addresses db2) =
      filter (\<lambda>a. ua_user a = user_pk ?u) (user_addresses db) @ [n2]"
    by (simp add: db2_def n2_def n_def)
  have "ua_fields n2 = d" "num_orders n2 = 2"
    by (simp_all add: n2_def n_def)
  with c1 c2 f3 f4 show ?thesis
    by blast
qed


theorem address_book_dedup_witness:
  "is_authenticated (request_user checkout_typed)
   \<and> is_shipping_required (case None of None \<Rightarrow> request_basket checkout_typed | Some b \<Rightarrow> b)
   \<and> new_shipping_address_fields (checkout_session checkout_typed) = Some smith_road
   \<and> smith_road \<noteq> []
   \<and> filter (\<lambda>a. ua_user a = user_pk (request_user checkout_typed)
                 \<and> ua_hash a = fields_hash smith_road) (user_addresses empty_db) = []
   \<and> (\<exists>db1 a1 db2 a2 e.
      create_shipping_address fields_hash checkout_typed empty_db None = Inr (db1, Some a1)
    \<and> create_shipping_address fields_hash checkout_typed db1 None = Inr (db2, Some a2)
    \<and> filter (\<lambda>a. ua_user a = user_pk (request_user checkout_typed)
                 \<and> ua_hash a = fields_hash smith_road) (user_addresses db2) = [e]
    \<and> ua_fields e = smith_road \<and> num_orders e = 2
    \<and> filter (\<lambda>a. ua_user a = user_pk (request_user checkout_typed)) (user_addresses db2) = [e])"
  using address_book_dedup
    [where self = checkout_typed and basket = None and d = smith_road
       and generate_hash = fields_hash and db = empty_db]
  by (simp add: checkout_typed_def empty_db_def smith_road_def)

section \<open>Properties of the shipping event ledger\<close>

lemma recorded_quantity_append:
  "recorded_quantity (L @ [r]) l t =
     recorded_quantity L l t
       + (if seq_line r = l \<and> event_type (seq_event r) = t then seq_quantity r else 0)"
  by (simp add: recorded_quantity_def)

lemma create_event_quantity_cases:
  "create_event_quantity L ev l qo =
     (let q = (case qo of None \<Rightarrow> quantity l - recorded_quantity L l (event_type ev) | Some q \<Rightarrow> q)
      in if recorded_quantity L l (event_type ev) + q \<le> quantity l
         then Inr (L @ [\<lparr>seq_event = ev, seq_line = l, seq_quantity = q\<rparr>])
         else Inl InvalidEventQuantity)"
  by (auto simp: create_event_quantity_def Let_def)

lemma create_event_quantity_other:
  assumes "create_event_quantity L ev l' qo = Inr L'" and "l' \<noteq> l \<or> event_type ev \<noteq> t"
  shows "recorded_quantity L' l t = recorded_quantity L l t"
  using assms
  by (auto simp: create_event_quantity_cases Let_def recorded_quantity_append split: if_splits)

lemma create_event_quantity_bound:
  assumes "create_event_quantity L ev l' qo = Inr L'" and "recorded_quantity L l t \<le> quantity l"
  shows "recorded_quantity L' l t \<le> quantity l"
  using assms
  by (auto simp: create_event_quantity_cases Let_def recorded_quantity_append
        split: if_splits option.splits)

lemma create_event_quantities_error:
  "create_event_quantities L ev qs = Inl e \<Longrightarrow> e = InvalidEventQuantity"
proof (induction qs arbitrary: L)
  case Nil
  then show ?case by simp
next
  case (Cons p qs)
  obtain l qo where p: "p = (l, qo)" by (cases p)
  show ?case
  proof (cases "create_event_quantity L ev l qo")
    case (Inl e')
    with Cons.prems p show ?thesis
      by (auto simp: create_event_quantity_cases Let_def split: if_splits)
  next
    case (Inr L1)
    with Cons.prems p have "create_event_quantities L1 ev qs = Inl e" by simp
    then show ?thesis by (rule Cons.IH)
  qed
qed

lemma create_event_quantities_bound:
  "create_event_quantities L ev qs = Inr L' \<Longrightarrow> recorded_quantity L l t \<le> quantity l
     \<Longrightarrow> recorded_quantity L' l t \<le> quantity l"
proof (induction qs arbitrary: L)
  case Nil
  then show ?case by simp
next
  case (Cons p qs)
  obtain l1 qo where p: "p = (l1, qo)" by (cases p)
  from Cons.prems(1) p obtain L1
    where s1: "create_event_quantity L ev l1 qo = Inr L1"
      and s2: "create_event_quantities L1 ev qs = Inr L'"
    by (auto split: sum.splits)
  from create_event_quantity_bound[OF s1 Cons.prems(2)]
  have "recorded_quantity L1 l t \<le> quantity l" .
  with s2 show ?case by (rule Cons.IH)
qed

lemma create_event_quantities_room:
  "distinct (map fst qs) \<Longrightarrow> (l, Some q) \<in> set qs
     \<Longrightarrow> create_event_quantities L ev qs = Inr L'
     \<Longrightarrow> recorded_quantity L l (event_type ev) + q \<le> quantity l"
proof (induction qs arbitrary: L)
  case Nil
  then show ?case by simp
next
  case (Cons p qs)
  obtain l1 qo where p: "p = (l1, qo)" by (cases p)
  from Cons.prems(3) p obtain L1
    where s1: "create_event_quantity L ev l1 qo = Inr L1"
      and s2: "create_event_quantities L1 ev qs = Inr L'"
    by (auto split: sum.splits)
  show ?case
  proof (cases "(l, Some q) = p")
    case True
    with p s1 show ?thesis
      by (auto simp: create_event_quantity_cases Let_def split: if_splits)
  next
    case False
    with Cons.prems(2) have mem: "(l, Some q) \<in> set qs" by simp
    from Cons.prems(1) p mem have "l1 \<noteq> l" by force
    then have same: "recorded_quantity L1 l (event_type ev) = recorded_quantity L l (event_type ev)"
      using create_event_quantity_other[OF s1, of l "event_type ev"] by blast
    from Cons.prems(1) have "distinct (map fst qs)" by simp
    from Cons.IH[OF this mem s2] same show ?thesis by simp
  qed
qed

lemma record_events_bound:
  "record_events L reqs = Inr L' \<Longrightarrow> recorded_quantity L l t \<le> quantity l
     \<Longrightarrow> recorded_quantity L' l t \<le> quantity l"
proof (induction reqs arbitrary: L)
  case Nil
  then show ?case by simp
next
  case (Cons rq reqs)
  obtain ord t1 qs where rq: "rq = (ord, t1, qs)" by (cases rq)
  from Cons.prems(1) rq obtain L1
    where s1: "record_event L ord t1 qs = Inr L1" and s2: "record_events L1 reqs = Inr L'"
    by (auto split: sum.splits)
  from s1 Cons.prems(2) have "recorded_quantity L1 l t \<le> quantity l"
    unfolding record_event_def by (rule create_event_quantities_bound)
  with s2 show ?case by (rule Cons.IH)
qed

text \<open>
  Claim C2. Recording an event with a quantity for a line that would make the line's
  cumulative recorded quantity for the event's type exceed the line's quantity fails with
  \<open>InvalidEventQuantity\<close> (the quantities of one event name each line once); and after any
  sequence of recordings that all succeed, from the empty ledger, the cumulative quantity of
  a line for a type does not exceed the line's quantity.
\<close>

theorem event_quantity_bounded:
  "(distinct (map fst qs) \<and> (l, Some q) \<in> set qs \<and> quantity l < recorded_quantity L l t + q
      \<longrightarrow> record_event L ord t qs = Inl InvalidEventQuantity)
   \<and> (0 \<le> quantity l \<and> record_events [] reqs = Inr L' \<longrightarrow> recorded_quantity L' l t' \<le> quantity l)"
proof (intro conjI impI)
  assume h: "distinct (map fst qs) \<and> (l, Some q) \<in> set qs
      \<and> quantity l < recorded_quantity L l t + q"
  let ?ev = "\<lparr>ev_order = number ord, event_type = t\<rparr>"
  show "record_event L ord t qs = Inl InvalidEventQuantity"
  proof (cases "create_event_quantities L ?ev qs")
    case (Inl e)
    then show ?thesis
      using create_event_quantities_error[OF Inl] by (simp add: record_event_def)
  next
    case (Inr L1)
    from h create_event_quantities_room[of qs l q L ?ev L1] Inr
    have "recorded_quantity L l t + q \<le> quantity l" by simp
    with h show ?thesis by simp
  qed
next
  assume h: "0 \<le> quantity l \<and> record_events [] reqs = Inr L'"
  then have "recorded_quantity [] l t' \<le> quantity l"
    by (simp add: recorded_quantity_def)
  with h show "recorded_quantity L' l t' \<le> quantity l"
    by (blast intro: record_events_bound)
qed

text \<open>
  The tests' line of 4 items: after 3 items were recorded, 2 more are refused; and the
  recordings of 3 and of 1 succeed and cover the line exactly.
\<close>

theorem event_quantity_bounded_witness:
  "distinct (map fst [(test_line, Some (2::int))])
   \<and> quantity test_line < recorded_quantity [placed_row 3] test_line order_placed + 2
   \<and> record_event [placed_row 3] test_order order_placed [(test_line, Some 2)]
       = Inl InvalidEventQuantity
   \<and> 0 \<le> quantity test_line
   \<and> record_events [] [(test_order, order_placed, [(test_line, Some 3)]),
                        (test_order, order_placed, [(test_line, Some 1)])]
       = Inr [placed_row 3, placed_row 1]
   \<and> recorded_quantity [placed_row 3, placed_row 1] test_line order_placed \<le> quantity test_line"
proof -
  have a: "distinct (map fst [(test_line, Some (2::int))])
      \<and> (test_line, Some 2) \<in> set [(test_line, Some (2::int))]
      \<and> quantity test_line < recorded_quantity [placed_row 3] test_line order_placed + 2"
    by (simp add: recorded_quantity_def placed_row_def test_line_def)
  have b: "0 \<le> quantity test_line
      \<and> record_events [] [(test_order, order_placed, [(test_line, Some 3)]),
                           (test_order, order_placed, [(test_line, Some 1)])]
          = Inr [placed_row 3, placed_row 1]"
    by (simp add: record_event_def create_event_quantity_cases recorded_quantity_def
          placed_row_def test_line_def test_order_def)
  from a b
    event_quantity_bounded [of "[(test_line, Some 2)]" test_line 2 "[placed_row 3]"
      order_placed test_order
      "[(test_order, order_placed, [(test_line, Some 3)]),
        (test_order, order_placed, [(test_line, Some 1)])]"
      "[placed_row 3, placed_row 1]" order_placed]
  show ?thesis by blast
qed

lemma record_event_single:
  "record_event L ord t [(l, Some q)] =
     (if recorded_quantity L l t + q \<le> quantity l
      then Inr (L @ [\<lparr>seq_event = \<lparr>ev_order = number ord, event_type = t\<rparr>,
                       seq_line = l, seq_quantity = q\<rparr>])
      else Inl InvalidEventQuantity)"
  by (simp add: record_event_def create_event_quantity_cases)

lemma shipping_status_append:
  "shipping_status (L @ [\<lparr>seq_event = ev, seq_line = l, seq_quantity = q\<rparr>]) l =
     (if recorded_quantity L l (event_type ev) + q = quantity l then et_name (event_type ev)
      else et_name (event_type ev) @ '' (''
             @ str_int (recorded_quantity L l (event_type ev) + q) @ ''/''
             @ str_int (quantity l) @ '' items)'')"
  by (simp add: shipping_status_def recorded_quantity_append Let_def)

lemma placed_rows:
  "record_event [] test_order order_placed [(test_line, Some 3)] = Inr [placed_row 3]"
  "record_event [placed_row 3] test_order order_placed [(test_line, Some 1)]
     = Inr [placed_row 3, placed_row 1]"
  by (simp_all add: record_event_single recorded_quantity_def placed_row_def test_line_def
        test_order_def)

text \<open>
  Claim C3. A line without events has the empty status. After an event of a type was
  recorded with a quantity for a line, the line's status is the name of the type when the
  line's cumulative quantity for the type has reached the line's quantity, and
  \<open><name> (<done>/<total> items)\<close> when it has not. For the line of 4 items, recording
  3 items as "Order placed" gives \<open>Order placed (3/4 items)\<close>, and recording 1 more gives
  \<open>Order placed\<close>.
\<close>

theorem line_shipping_status:
  "shipping_status [] l = []
   \<and> (record_event L ord t [(l, Some q)] = Inr L' \<longrightarrow>
        shipping_status L' l =
          (if recorded_quantity L l t + q = quantity l then et_name t
           else et_name t @ '' ('' @ str_int (recorded_quantity L l t + q) @ ''/''
                  @ str_int (quantity l) @ '' items)''))
   \<and> record_event [] test_order order_placed [(test_line, Some 3)] = Inr [placed_row 3]
   \<and> shipping_status [placed_row 3] test_line = ''Order placed (3/4 items)''
   \<and> record_event [placed_row 3] test_order order_placed [(test_line, Some 1)]
        = Inr [placed_row 3, placed_row 1]
   \<and> shipping_status [placed_row 3, placed_row 1] test_line = ''Order placed''"
proof -
  have none: "shipping_status [] l = []"
    by (simp add: shipping_status_def)
  have gen: "shipping_status L' l =
          (if recorded_quantity L l t + q = quantity l then et_name t
           else et_name t @ '' ('' @ str_int (recorded_quantity L l t + q) @ ''/''
                  @ str_int (quantity l) @ '' items)'')"
    if "record_event L ord t [(l, Some q)] = Inr L'"
  proof -
    from that have "L' = L @ [\<lparr>seq_event = \<lparr>ev_order = number ord, event_type = t\<rparr>,
                       seq_line = l, seq_quantity = q\<rparr>]"
      by (simp add: record_event_single split: if_splits)
    then show ?thesis by (simp add: shipping_status_append)
  qed
  have s3: "shipping_status [placed_row 3] test_line = ''Order placed (3/4 items)''"
    by code_simp
  have s4: "shipping_status [placed_row 3, placed_row 1] test_line = ''Order placed''"
    by code_simp
  from none gen placed_rows s3 s4 show ?thesis by blast
qed

text \<open>After the full "Order placed" event, 2 of the 4 items are dispatched.\<close>

theorem line_shipping_status_witness:
  "record_event [placed_row 4] test_order dispatched [(test_line, Some 2)]
     = Inr [placed_row 4, \<lparr>seq_event = \<lparr>ev_order = ''100002'', event_type = dispatched\<rparr>,
                            seq_line = test_line, seq_quantity = 2\<rparr>]
   \<and> shipping_status
        [placed_row 4, \<lparr>seq_event = \<lparr>ev_order = ''100002'', event_type = dispatched\<rparr>,
                         seq_line = test_line, seq_quantity = 2\<rparr>] test_line
     = ''Dispatched (2/4 items)''"
proof -
  have r: "record_event [placed_row 4] test_order dispatched [(test_line, Some 2)]
     = Inr [placed_row 4, \<lparr>seq_event = \<lparr>ev_order = ''100002'', event_type = dispatched\<rparr>,
                            seq_line = test_line, seq_quantity = 2\<rparr>]"
    by (simp add: record_event_single recorded_quantity_def placed_row_def test_line_def
          test_order_def dispatched_def order_placed_def)
  have q: "recorded_quantity [placed_row 4] test_line dispatched + 2 \<noteq> quantity test_line"
    by (simp add: recorded_quantity_def placed_row_def test_line_def dispatched_def
          order_placed_def)
  have n: "et_name dispatched @ '' (''
        @ str_int (recorded_quantity [placed_row 4] test_line dispatched + 2) @ ''/''
        @ str_int (quantity test_line) @ '' items)'' = ''Dispatched (2/4 items)''"
    by code_simp
  from r q n
    line_shipping_status [of test_line "[placed_row 4]" test_order dispatched 2
      "[placed_row 4, \<lparr>seq_event = \<lparr>ev_order = ''100002'', event_type = dispatched\<rparr>,
                         seq_line = test_line, seq_quantity = 2\<rparr>]"]
  show ?thesis by simp
qed

lemma lines_have_shipping_event_occurred_iff:
  "lines_have_shipping_event_occurred L ls t \<longleftrightarrow>
     (\<forall>l \<in> set ls. recorded_quantity L l t = quantity l)"
  by (induction ls) (simp_all add: line_has_shipping_event_occurred_def)

text \<open>
  Claim C4. \<open>has_shipping_event_occurred\<close> of an order and an event type is true if and only
  if, for every line of the order, the line's cumulative recorded quantity for the type
  equals the line's quantity; it is false when some line's cumulative quantity for the type
  is below the line's quantity.
\<close>

theorem has_shipping_event_occurred_iff:
  "(has_shipping_event_occurred L ord t \<longleftrightarrow>
      (\<forall>l \<in> set (order_lines ord). recorded_quantity L l t = quantity l))
   \<and> ((\<exists>l \<in> set (order_lines ord). recorded_quantity L l t < quantity l)
        \<longrightarrow> \<not> has_shipping_event_occurred L ord t)"
  by (force simp: has_shipping_event_occurred_def lines_have_shipping_event_occurred_iff)

text \<open>
  The tests: after an event for one item less than the line has, the event has not
  occurred; after the full event, it has.
\<close>

theorem has_shipping_event_occurred_iff_witness:
  "test_line \<in> set (order_lines test_order)
   \<and> recorded_quantity [placed_row 3] test_line order_placed < quantity test_line
   \<and> has_shipping_event_occurred [placed_row 3] test_order order_placed = False
   \<and> recorded_quantity [placed_row 4] test_line order_placed = quantity test_line
   \<and> has_shipping_event_occurred [placed_row 4] test_order order_placed = True"
proof -
  have m: "test_line \<in> set (order_lines test_order)" "order_lines test_order = [test_line]"
    by (simp_all add: test_order_def)
  have a: "recorded_quantity [placed_row 3] test_line order_placed < quantity test_line"
    by (simp add: recorded_quantity_def placed_row_def test_line_def)
  have b: "recorded_quantity [placed_row 4] test_line order_placed = quantity test_line"
    by (simp add: recorded_quantity_def placed_row_def test_line_def)
  from m a b
    has_shipping_event_occurred_iff [of "[placed_row 3]" test_order order_placed]
    has_shipping_event_occurred_iff [of "[placed_row 4]" test_order order_placed]
  show ?thesis by auto
qed

text \<open>
  Claim C9. Recording an event for a line with the quantity omitted always succeeds, and
  the row that it writes has the line's remaining quantity: the line's quantity minus the
  line's cumulative recorded quantity for the stage, so that the line is then fully covered;
  on a line without events of the stage this is the line's full quantity.
\<close>

theorem omitted_quantity_is_remaining:
  "record_event L ord t [(l, None)] =
     Inr (L @ [\<lparr>seq_event = \<lparr>ev_order = number ord, event_type = t\<rparr>, seq_line = l,
                 seq_quantity = quantity l - recorded_quantity L l t\<rparr>])
   \<and> recorded_quantity
        (L @ [\<lparr>seq_event = \<lparr>ev_order = number ord, event_type = t\<rparr>, seq_line = l,
                seq_quantity = quantity l - recorded_quantity L l t\<rparr>]) l t = quantity l
   \<and> record_event [] ord t [(l, None)] =
       Inr [\<lparr>seq_event = \<lparr>ev_order = number ord, event_type = t\<rparr>, seq_line = l,
             seq_quantity = quantity l\<rparr>]"
  by (simp add: record_event_def create_event_quantity_cases recorded_quantity_append)
     (simp add: recorded_quantity_def)

end
